theory Spec2Isabelle
  imports
    Complex_Main
    "HOL-Library.Multiset"
    "HOL-Library.Product_Lexorder"
    "HOL-Library.List_Lexorder"
    "HOL-Library.Char_ord"
begin

section \<open>Data model\<close>

text \<open>
  One row of the event log. Python floats are modelled as rationals: the claims below are
  about comparisons against thresholds and about ratios of small counts. A cell that pandas
  holds as NaN is \<open>None\<close>: the outcome, the coordinates and the three identity
  columns of the player (player_id, player_name_ko, team_name_ko) may be missing. The
  columns of the sort order (game, period, clock, action id) and the team id are present in
  every row.
\<close>

record event =
  game_id :: int
  period_id :: int
  time_seconds :: rat
  action_id :: int
  player_id :: "int option"
  player_name_ko :: "string option"
  team_id :: int
  team_name_ko :: "string option"
  type_name :: string
  result_name :: "string option"
  start_x :: "rat option"
  start_y :: "rat option"

text \<open>A preprocessed row: the source columns and the four derived flags.\<close>

record pevent = event +
  is_success :: bool
  is_fail :: bool
  is_card :: bool
  in_def_third :: bool

subsection \<open>Configuration (config.py)\<close>

definition DEF_ACTIONS :: "string list" where
  "DEF_ACTIONS = [''Tackle'', ''Duel'', ''Foul'', ''Interception'', ''Block'', ''Clearance'',
     ''Intervention'', ''Error'', ''Aerial Clearance'']"

definition CARD_SET :: "string set" where
  "CARD_SET = {''Yellow_Card'', ''Second_Yellow_Card'', ''Direct_Red_Card''}"

definition FOUL_TYPES :: "string list" where
  "FOUL_TYPES = [''Foul'', ''Handball_Foul'', ''Hit'']"

section \<open>Preprocessor (preprocess.py)\<close>

text \<open>
  \<open>preprocess_events\<close> copies the table, sorts it by
  (game_id, period_id, time_seconds, action_id) and assigns the four derived columns, each
  from a source column. A comparison with a missing cell is False, as in pandas. The sort
  is the stable lexicographic sort pandas uses for several sort columns.
\<close>

definition sort_columns :: "'a event_scheme \<Rightarrow> int \<times> int \<times> rat \<times> int" where
  "sort_columns e = (game_id e, period_id e, time_seconds e, action_id e)"

definition add_flags :: "'a event_scheme \<Rightarrow> pevent" where
  "add_flags e =
     \<lparr> game_id = game_id e, period_id = period_id e, time_seconds = time_seconds e,
       action_id = action_id e, player_id = player_id e,
       player_name_ko = player_name_ko e, team_id = team_id e,
       team_name_ko = team_name_ko e, type_name = type_name e,
       result_name = result_name e, start_x = start_x e, start_y = start_y e,
       is_success = (result_name e = Some ''Successful''),
       is_fail = (result_name e = Some ''Unsuccessful''),
       is_card = (case result_name e of None \<Rightarrow> False | Some r \<Rightarrow> r \<in> CARD_SET),
       in_def_third = (case start_x e of None \<Rightarrow> False | Some x \<Rightarrow> x \<le> 35) \<rparr>"

definition preprocess_events :: "'a event_scheme list \<Rightarrow> pevent list" where
  "preprocess_events df = map add_flags (sort_key sort_columns df)"

section \<open>Zone binner (feature_engineering.py)\<close>

datatype error = ValueError | KeyError | IndexError

text \<open>
  \<open>numpy.searchsorted(bins, v, side="right")\<close> on increasing bins: the number of
  leading bin edges that are at most \<open>v\<close>.
\<close>

definition searchsorted_right :: "rat list \<Rightarrow> rat \<Rightarrow> nat" where
  "searchsorted_right bins v = length (takeWhile (\<lambda>b. b \<le> v) bins)"

text \<open>
  \<open>pandas.cut(x, bins, labels, include_lowest=True, right=False)\<close> for one cell.
  It refuses bin edges that do not increase strictly. With \<open>right=False\<close> the
  position of a value is found with side "right"; \<open>include_lowest\<close> sets the
  position of a value equal to the first edge to 1; a position of 0 or of the number of
  edges, and a missing value, give a missing label.
\<close>

definition cut :: "rat list \<Rightarrow> string list \<Rightarrow> rat option \<Rightarrow> error + string option" where
  "cut bins labels x =
     (if bins = [] then Inl IndexError
      else if \<not> sorted_wrt (<) bins then Inl ValueError
      else Inr (case x of
             None \<Rightarrow> None
           | Some v \<Rightarrow>
               let ids = (if v = hd bins then 1 else searchsorted_right bins v)
               in if ids = length bins \<or> ids = 0 then None
                  else Some (labels ! (ids - 1))))"

text \<open>\<open>astype(str)\<close> on a label column: a missing label becomes the text "nan".\<close>

definition astype_str :: "string option \<Rightarrow> string" where
  "astype_str l = (case l of None \<Rightarrow> ''nan'' | Some s \<Rightarrow> s)"

text \<open>Python's \<open>str(i)\<close> of a natural number, for the fallback labels.\<close>

definition digit_char :: "nat \<Rightarrow> char" where
  "digit_char n = ''0123456789'' ! (n mod 10)"

fun str_of_nat :: "nat \<Rightarrow> string" where
  "str_of_nat n =
     (if n < 10 then [digit_char n] else str_of_nat (n div 10) @ [digit_char (n mod 10)])"

definition default_x_bins :: "rat list" where
  "default_x_bins = [0, 105 / 4, 105 / 2, 315 / 4, 105]"

definition default_y_bins :: "rat list" where
  "default_y_bins = [0, 2267 / 100, 4533 / 100, 68]"

definition x_labels_for :: "rat list \<Rightarrow> string list" where
  "x_labels_for x_bins =
     (if int (length x_bins) - 1 \<noteq> 4
      then map (\<lambda>i. ''X'' @ str_of_nat i) [0 ..< length x_bins - 1]
      else [''D'', ''DM'', ''AM'', ''A''])"

definition y_labels_for :: "rat list \<Rightarrow> string list" where
  "y_labels_for y_bins =
     (if int (length y_bins) - 1 \<noteq> 3
      then map (\<lambda>i. ''Y'' @ str_of_nat i) [0 ..< length y_bins - 1]
      else [''L'', ''C'', ''R''])"

record zone_columns =
  zone_x :: string
  zone_y :: string
  zone :: string

text \<open>
  The three columns \<open>add_zone_columns\<close> computes for a row with coordinates
  \<open>x\<close>, \<open>y\<close>.
\<close>

definition zone_of :: "rat list \<Rightarrow> rat list \<Rightarrow> rat option \<Rightarrow> rat option \<Rightarrow> error + zone_columns" where
  "zone_of x_bins y_bins x y =
     (case cut x_bins (x_labels_for x_bins) x of
        Inl e \<Rightarrow> Inl e
      | Inr lx \<Rightarrow>
          (case cut y_bins (y_labels_for y_bins) y of
             Inl e \<Rightarrow> Inl e
           | Inr ly \<Rightarrow>
               Inr \<lparr> zone_x = astype_str lx, zone_y = astype_str ly,
                     zone = astype_str lx @ ''-'' @ astype_str ly \<rparr>))"

fun collect :: "(error + 'a) list \<Rightarrow> error + 'a list" where
  "collect [] = Inr []"
| "collect (Inl e # rs) = Inl e"
| "collect (Inr v # rs) = (case collect rs of Inl e \<Rightarrow> Inl e | Inr vs \<Rightarrow> Inr (v # vs))"

text \<open>
  \<open>add_zone_columns(events, x_bins, y_bins, x_col, y_col)\<close>: every row of the copy
  gets the three columns; the column names \<open>x_col\<close>, \<open>y_col\<close> are the selectors of
  the coordinates, and absent bins are the defaults for a 105 by 68 pitch. An empty table
  still has its bins checked by \<open>pandas.cut\<close>.
\<close>

definition add_zone_columns ::
  "'a event_scheme list \<Rightarrow> rat list option \<Rightarrow> rat list option
   \<Rightarrow> ('a event_scheme \<Rightarrow> rat option) \<Rightarrow> ('a event_scheme \<Rightarrow> rat option)
   \<Rightarrow> error + ('a event_scheme \<times> zone_columns) list" where
  "add_zone_columns events x_bins y_bins x_col y_col =
     (let xb = (case x_bins of None \<Rightarrow> default_x_bins | Some b \<Rightarrow> b);
          yb = (case y_bins of None \<Rightarrow> default_y_bins | Some b \<Rightarrow> b)
      in case zone_of xb yb None None of
           Inl e \<Rightarrow> Inl e
         | Inr _ \<Rightarrow>
             collect (map (\<lambda>e. case zone_of xb yb (x_col e) (y_col e) of
                                  Inl err \<Rightarrow> Inl err
                                | Inr z \<Rightarrow> Inr (e, z)) events))"

text \<open>The twelve zone labels of the data model.\<close>

definition zone_labels :: "string list" where
  "zone_labels = [zx @ ''-'' @ zy. zx \<leftarrow> [''D'', ''DM'', ''AM'', ''A''], zy \<leftarrow> [''L'', ''C'', ''R'']]"

text \<open>An event on the far goal line, at mid width.\<close>

definition goal_line_event :: event where
  "goal_line_event =
     \<lparr> game_id = 1, period_id = 1, time_seconds = 60, action_id = 1, player_id = Some 7,
       player_name_ko = Some ''P7'', team_id = 1, team_name_ko = Some ''T1'',
       type_name = ''Shot'',
       result_name = Some ''Goal'', start_x = Some 105, start_y = Some 34 \<rparr>"

section \<open>Tables of per-player numbers\<close>

text \<open>
  The aggregate tables are keyed by the three identity columns
  (player_id, player_name_ko, team_name_ko). A row holds the key and its numeric cells by
  column name; a numeric cell that is NaN in pandas is \<open>None\<close>. \<open>columns\<close> lists
  the numeric columns of the table, besides the identity columns. The key of an event is
  missing as soon as one of its three identity cells is.
\<close>

type_synonym pkey = "int \<times> string \<times> string"

record row =
  key :: pkey
  cells :: "string \<rightharpoonup> rat"

record frame =
  columns :: "string list"
  rows :: "row list"

definition pkey_of :: "'a event_scheme \<Rightarrow> pkey option" where
  "pkey_of e =
     (case player_id e of
        None \<Rightarrow> None
      | Some i \<Rightarrow>
          (case player_name_ko e of
             None \<Rightarrow> None
           | Some n \<Rightarrow>
               (case team_name_ko e of
                  None \<Rightarrow> None
                | Some t \<Rightarrow> Some (i, n, t))))"

text \<open>The aggregations the source uses: \<open>("action_id", "count")\<close> and the sum of a flag.\<close>

definition count_rows :: "'a list \<Rightarrow> rat" where
  "count_rows g = of_nat (length g)"

definition sum_flag :: "('a \<Rightarrow> bool) \<Rightarrow> 'a list \<Rightarrow> rat" where
  "sum_flag p g = of_nat (length (filter p g))"

text \<open>
  \<open>sub.groupby([player_id, player_name_ko, team_name_ko]).agg(...).reset_index()\<close>:
  one row per key that occurs, keys in ascending order, one cell per named aggregation.
  By default \<open>groupby\<close> drops the rows whose key has a missing cell.
\<close>

definition groupby_agg :: "'a event_scheme list \<Rightarrow> (string \<times> ('a event_scheme list \<Rightarrow> rat)) list \<Rightarrow> frame" where
  "groupby_agg sub aggs =
     \<lparr> columns = map fst aggs,
       rows = map (\<lambda>k. \<lparr> key = k,
                          cells = map_of (map (\<lambda>(c, f). (c, f (filter (\<lambda>e. pkey_of e = Some k) sub))) aggs) \<rparr>)
                  (sort (remdups (List.map_filter pkey_of sub))) \<rparr>"

text \<open>
  \<open>a.merge(b, on=[player_id, player_name_ko, team_name_ko], how="outer")\<close>: for
  every key of either table, in ascending order, each row of \<open>a\<close> with that key is
  paired with each row of \<open>b\<close> with that key; a key that one table lacks is paired
  with missing cells. The numeric columns of the two tables have different names wherever
  the source merges (so pandas adds no suffixes).
\<close>

definition matching :: "frame \<Rightarrow> pkey \<Rightarrow> row list" where
  "matching t k =
     (case filter (\<lambda>r. key r = k) (rows t) of
        [] \<Rightarrow> [\<lparr> key = k, cells = Map.empty \<rparr>]
      | r # rs \<Rightarrow> r # rs)"

definition merge_outer :: "frame \<Rightarrow> frame \<Rightarrow> frame" where
  "merge_outer a b =
     \<lparr> columns = columns a @ columns b,
       rows = concat (map (\<lambda>k. concat (map (\<lambda>l. map (\<lambda>r. \<lparr> key = k, cells = cells l ++ cells r \<rparr>)
                                                      (matching b k))
                                            (matching a k)))
                          (sort (remdups (map key (rows a) @ map key (rows b))))) \<rparr>"

text \<open>\<open>df[cols] = df[cols].fillna(0)\<close>.\<close>

definition fillna0 :: "string list \<Rightarrow> frame \<Rightarrow> frame" where
  "fillna0 cols fr =
     fr\<lparr> rows := map (\<lambda>r. r\<lparr> cells := (\<lambda>c. if c \<in> set cols \<and> c \<in> set (columns fr) \<and> cells r c = None
                                               then Some 0 else cells r c) \<rparr>)
                     (rows fr) \<rparr>"

section \<open>Aggregator (aggregate.py)\<close>

text \<open>
  Each block of \<open>aggregate_player_stats\<close> selects the rows of one category, and, when
  there is at least one, appends the grouped counts of the category to \<open>results\<close>.
\<close>

record category =
  selects :: "pevent \<Rightarrow> bool"
  aggs :: "(string \<times> (pevent list \<Rightarrow> rat)) list"

definition tackle :: category where
  "tackle = \<lparr> selects = (\<lambda>e. type_name e = ''Tackle''),
              aggs = [(''tackle_attempt'', count_rows), (''tackle_fail'', sum_flag is_fail)] \<rparr>"

definition duel :: category where
  "duel = \<lparr> selects = (\<lambda>e. type_name e = ''Duel''),
            aggs = [(''duel_attempt'', count_rows), (''duel_fail'', sum_flag is_fail)] \<rparr>"

definition foul :: category where
  "foul = \<lparr> selects = (\<lambda>e. type_name e \<in> set FOUL_TYPES),
            aggs = [(''foul_count'', count_rows), (''danger_foul_count'', sum_flag in_def_third)] \<rparr>"

definition clearance :: category where
  "clearance = \<lparr> selects = (\<lambda>e. type_name e \<in> set [''Clearance'', ''Aerial Clearance'']),
                 aggs = [(''clearance_attempt'', count_rows)] \<rparr>"

definition block :: category where
  "block = \<lparr> selects = (\<lambda>e. type_name e = ''Block''),
             aggs = [(''block_attempt'', count_rows), (''block_fail'', sum_flag is_fail)] \<rparr>"

definition interception :: category where
  "interception = \<lparr> selects = (\<lambda>e. type_name e = ''Interception''),
                    aggs = [(''interception_attempt'', count_rows),
                            (''interception_fail'', sum_flag is_fail)] \<rparr>"

definition cards :: category where
  "cards = \<lparr> selects = is_card, aggs = [(''card_count'', count_rows)] \<rparr>"

definition def_actions :: category where
  "def_actions = \<lparr> selects = (\<lambda>e. type_name e \<in> set DEF_ACTIONS),
                   aggs = [(''def_actions'', count_rows)] \<rparr>"

definition player_categories :: "category list" where
  "player_categories =
     [tackle, duel, foul, clearance, block, interception, cards, def_actions]"

definition category_stats :: "category \<Rightarrow> pevent list \<Rightarrow> frame list" where
  "category_stats c df =
     (let sub = filter (selects c) df
      in if length sub > 0 then [groupby_agg sub (aggs c)] else [])"

definition category_results :: "pevent list \<Rightarrow> frame list" where
  "category_results df = concat (map (\<lambda>c. category_stats c df) player_categories)"

text \<open>
  \<open>aggregate_player_stats\<close>. With no category at all the result is the empty table
  with every expected column. Otherwise the category tables are outer-merged from left to
  right and the missing numbers are filled with 0. The final forward and backward fill of
  the two name columns changes nothing here: they are merge keys, present in every row.
\<close>

definition aggregate_player_stats :: "pevent list \<Rightarrow> frame" where
  "aggregate_player_stats df =
     (case category_results df of
        [] \<Rightarrow> \<lparr> columns = [''tackle_attempt'', ''tackle_fail'', ''duel_attempt'', ''duel_fail'',
                            ''foul_count'', ''danger_foul_count'', ''clearance_attempt'',
                            ''block_attempt'', ''block_fail'', ''interception_attempt'',
                            ''interception_fail'', ''card_count'', ''def_actions''],
                rows = [] \<rparr>
      | r0 # rs \<Rightarrow>
          (let agg_df = foldl merge_outer r0 rs
           in fillna0 (columns agg_df) agg_df))"






text \<open>The shape in which the concrete scenarios show a table: key and cells, per row.\<close>

definition show_rows :: "string list \<Rightarrow> frame \<Rightarrow> (pkey \<times> rat option list) list" where
  "show_rows cs fr = map (\<lambda>r. (key r, map (cells r) cs)) (rows fr)"



text \<open>Building rows of an event log for concrete scenarios.\<close>

definition ev :: "int \<Rightarrow> int \<Rightarrow> rat \<Rightarrow> int \<Rightarrow> pkey \<Rightarrow> int \<Rightarrow> string \<Rightarrow> string option \<Rightarrow> event" where
  "ev g p t a k tm ty res =
     \<lparr> game_id = g, period_id = p, time_seconds = t, action_id = a, player_id = Some (fst k),
       player_name_ko = Some (fst (snd k)), team_id = tm, team_name_ko = Some (snd (snd k)),
       type_name = ty, result_name = res, start_x = Some 50, start_y = Some 34 \<rparr>"

definition player_X :: pkey where "player_X = (1, ''X'', ''Home'')"
definition player_Y :: pkey where "player_Y = (2, ''Y'', ''Away'')"
definition player_Z :: pkey where "player_Z = (3, ''Z'', ''Away'')"




section \<open>Temporal correlator (aggregate.py, calculate_clearance_panic)\<close>

definition is_clearance :: "'a event_scheme \<Rightarrow> bool" where
  "is_clearance e = (type_name e \<in> set [''Clearance'', ''Aerial Clearance''])"

definition is_shot :: "'a event_scheme \<Rightarrow> bool" where
  "is_shot e = (type_name e = ''Shot'')"

definition same_period :: "int \<times> int \<Rightarrow> 'a event_scheme \<Rightarrow> bool" where
  "same_period gp e = (game_id e = fst gp \<and> period_id e = snd gp)"

text \<open>
  A row of \<open>pd.merge_asof(clr_group, shots_group, on="time_seconds", direction="forward",
  suffixes=("_clr", "_shot"), allow_exact_matches=True)\<close>: the clearance, and the first
  shot of the time-sorted shots whose time is at least the clearance's (missing when there
  is none). The join key is a single column of the result, named \<open>time_seconds\<close> and
  holding the key of the left row; every other column is in both tables and so comes
  twice, with the suffixes.
\<close>

record merged =
  clr :: pevent
  shot :: "pevent option"

definition merge_asof_forward :: "pevent list \<Rightarrow> pevent list \<Rightarrow> merged list" where
  "merge_asof_forward left right =
     map (\<lambda>c. \<lparr> clr = c, shot = find (\<lambda>s. time_seconds c \<le> time_seconds s) right \<rparr>) left"

definition event_columns :: "string list" where
  "event_columns =
     [''game_id'', ''period_id'', ''time_seconds'', ''action_id'', ''player_id'',
      ''player_name_ko'', ''team_id'', ''team_name_ko'', ''type_name'', ''result_name'',
      ''start_x'', ''start_y'', ''is_success'', ''is_fail'', ''is_card'', ''in_def_third'']"

definition merged_columns :: "string list" where
  "merged_columns =
     map (\<lambda>c. if c = ''time_seconds'' then c else c @ ''_clr'') event_columns
     @ map (\<lambda>c. c @ ''_shot'') (filter (\<lambda>c. c \<noteq> ''time_seconds'') event_columns)"

text \<open>The numeric columns of the merged table that the function reads, by name.\<close>

definition merged_num :: "string \<Rightarrow> merged \<Rightarrow> rat option" where
  "merged_num name m =
     (if name = ''time_seconds'' then Some (time_seconds (clr m))
      else if name = ''team_id_clr'' then Some (of_int (team_id (clr m)))
      else if name = ''team_id_shot'' then map_option (\<lambda>s. of_int (team_id s)) (shot m)
      else None)"

definition team_col :: string where
  "team_col = (if ''team_id_shot'' \<in> set merged_columns then ''team_id_shot'' else ''team_id'')"

definition time_col_shot :: string where
  "time_col_shot =
     (if ''time_seconds_shot'' \<in> set merged_columns then ''time_seconds_shot'' else ''time_seconds'')"

definition time_col_clr :: string where
  "time_col_clr =
     (if ''time_seconds_clr'' \<in> set merged_columns then ''time_seconds_clr'' else ''time_seconds'')"

definition team_id_clr_col :: string where
  "team_id_clr_col = (if ''team_id_clr'' \<in> set merged_columns then ''team_id_clr'' else ''team_id'')"

text \<open>\<open>m["time_diff"] = m[time_col_shot] - m[time_col_clr]\<close>, on rows that passed dropna.\<close>

definition time_diff :: "merged \<Rightarrow> rat" where
  "time_diff m = the (merged_num time_col_shot m) - the (merged_num time_col_clr m)"

definition shot_within_10s :: "merged \<Rightarrow> bool" where
  "shot_within_10s m =
     (time_diff m \<le> 10 \<and> time_diff m \<ge> 0
      \<and> merged_num team_col m \<noteq> merged_num team_id_clr_col m)"

text \<open>
  The body of the loop over the (game_id, period_id) groups of the clearances: the rows it
  appends to \<open>results\<close>, each with its flag, or nothing when it continues. The keys are
  present and sorted, so \<open>merge_asof\<close> raises no ValueError here. Rows with the same
  time are kept in the order of the table; which of several shots at the same time pandas
  pairs with a clearance matters to no property below.
\<close>

definition group_result :: "pevent list \<Rightarrow> pevent list \<Rightarrow> (merged \<times> bool) list" where
  "group_result clr_group shots_group =
     (if length shots_group = 0 then []
      else
        let clr_sorted = sort_key time_seconds clr_group;
            shots_sorted = sort_key time_seconds shots_group;
            m = merge_asof_forward clr_sorted shots_sorted;
            m = filter (\<lambda>r. merged_num time_col_shot r \<noteq> None \<and> merged_num team_col r \<noteq> None) m
        in if length m = 0 then []
           else if time_col_clr \<in> set merged_columns \<and> time_col_shot \<in> set merged_columns
           then map (\<lambda>r. (r, shot_within_10s r)) m
           else [])"

definition panic_columns :: "string list" where
  "panic_columns = [''clearance'', ''concede_shot10'']"

definition panic_results :: "pevent list \<Rightarrow> (merged \<times> bool) list" where
  "panic_results df =
     (let clrs = filter is_clearance df; shots = filter is_shot df
      in concat (map (\<lambda>gp. group_result (filter (same_period gp) clrs) (filter (same_period gp) shots))
                     (sort (remdups (map (\<lambda>e. (game_id e, period_id e)) clrs)))))"

text \<open>
  \<open>calculate_clearance_panic\<close>: the empty table when there is no clearance, no shot or no
  retained row; otherwise one row per clearing player with the number of retained
  clearances and the number of flagged ones.
\<close>

definition calculate_clearance_panic :: "pevent list \<Rightarrow> frame" where
  "calculate_clearance_panic df =
     (let clrs = filter is_clearance df; shots = filter is_shot df
      in if length clrs = 0 \<or> length shots = 0 then \<lparr> columns = panic_columns, rows = [] \<rparr>
         else
           let m = panic_results df
           in if length m = 0 then \<lparr> columns = panic_columns, rows = [] \<rparr>
              else if ''player_id_clr'' \<notin> set merged_columns
              then \<lparr> columns = panic_columns, rows = [] \<rparr>
              else
                \<lparr> columns = panic_columns,
                  rows = map (\<lambda>k. \<lparr> key = k,
                                     cells = map_of
                                       [(''clearance'',
                                           count_rows (filter (\<lambda>r. pkey_of (clr (fst r)) = Some k) m)),
                                        (''concede_shot10'',
                                           sum_flag snd (filter (\<lambda>r. pkey_of (clr (fst r)) = Some k) m))] \<rparr>)
                             (sort (remdups (List.map_filter (\<lambda>r. pkey_of (clr (fst r))) m))) \<rparr>)"

text \<open>
  The clearances of a player that have a shot at or after them in their game and period.
\<close>

definition has_later_shot :: "pevent list \<Rightarrow> pevent \<Rightarrow> bool" where
  "has_later_shot df c =
     (\<exists>s \<in> set df. is_shot s \<and> game_id s = game_id c \<and> period_id s = period_id c
                   \<and> time_seconds c \<le> time_seconds s)"

definition paired_clearances :: "pevent list \<Rightarrow> pkey \<Rightarrow> pevent list" where
  "paired_clearances df k =
     filter (\<lambda>c. is_clearance c \<and> pkey_of c = Some k \<and> has_later_shot df c) df"

text \<open>
  A clearance by X (team 1) at 10 s and a shot by Y (team 2) at 21 s, eleven seconds later,
  in the same game and period.
\<close>

definition late_shot_log :: "event list" where
  "late_shot_log =
     [ev 1 1 10 1 player_X 1 ''Clearance'' (Some ''Successful''),
      ev 1 1 21 2 player_Y 2 ''Shot'' (Some ''Off Target'')]"

text \<open>
  Two clearances by X, at 10 s and at 30 s, and one shot by Y at 18 s, in the same game
  and period: the second clearance comes after the last shot.
\<close>

definition two_clearance_log :: "event list" where
  "two_clearance_log =
     [ev 1 1 10 1 player_X 1 ''Clearance'' (Some ''Successful''),
      ev 1 1 18 2 player_Y 2 ''Shot'' (Some ''Off Target''),
      ev 1 1 30 3 player_X 1 ''Clearance'' (Some ''Successful'')]"


section \<open>Second-half drop (aggregate.py, calculate_second_half_drop)\<close>

definition is_def_action :: "'a event_scheme \<Rightarrow> bool" where
  "is_def_action e = (type_name e \<in> set DEF_ACTIONS)"

definition is_def_fail :: "'a event_scheme \<Rightarrow> bool" where
  "is_def_fail e = (result_name e = Some ''Unsuccessful'' \<or> type_name e = ''Error'')"

text \<open>
  \<open>g\<close>: the defensive actions grouped by (player_id, player_name_ko, team_name_ko,
  period_id), with the two counts and their quotient. A group has at least one row, so the
  quotient divides by a positive count.
\<close>

definition period_key_of :: "'a event_scheme \<Rightarrow> (pkey \<times> int) option" where
  "period_key_of e = map_option (\<lambda>k. (k, period_id e)) (pkey_of e)"

record period_row =
  pkey_period :: "pkey \<times> int"
  def_actions_count :: rat
  def_fails :: rat
  fail_rate :: rat

definition period_groups :: "'a event_scheme list \<Rightarrow> period_row list" where
  "period_groups da =
     map (\<lambda>kp. let grp = filter (\<lambda>e. period_key_of e = Some kp) da
               in \<lparr> pkey_period = kp, def_actions_count = count_rows grp,
                    def_fails = sum_flag is_def_fail grp,
                    fail_rate = sum_flag is_def_fail grp / count_rows grp \<rparr>)
         (sort (remdups (List.map_filter period_key_of da)))"

text \<open>
  \<open>g.pivot_table(index=[player_id, player_name_ko, team_name_ko], columns="period_id",
  values="fail_rate", fill_value=0)\<close>: one row per key of \<open>g\<close>, one column per period
  of \<open>g\<close>, both ascending; a cell is the mean of the fail rates of the rows of \<open>g\<close>
  with that key and period, which is the fail rate of the one such row, and 0 when there is
  none.
\<close>

definition pivot_index :: "period_row list \<Rightarrow> pkey list" where
  "pivot_index g = sort (remdups (map (\<lambda>r. fst (pkey_period r)) g))"

definition pivot_columns :: "period_row list \<Rightarrow> int list" where
  "pivot_columns g = sort (remdups (map (\<lambda>r. snd (pkey_period r)) g))"

definition pivot_cell :: "period_row list \<Rightarrow> pkey \<Rightarrow> int \<Rightarrow> rat" where
  "pivot_cell g k p =
     (case find (\<lambda>r. pkey_period r = (k, p)) g of None \<Rightarrow> 0 | Some r \<Rightarrow> fail_rate r)"

text \<open>Python's \<open>str\<close> of an integer, for the name of a period column.\<close>

definition str_of_int :: "int \<Rightarrow> string" where
  "str_of_int i = (if i < 0 then ''-'' @ str_of_nat (nat (- i)) else str_of_nat (nat i))"

definition half_columns :: "string list" where
  "half_columns = [''first_half_rate'', ''second_half_rate'', ''second_half_drop'', ''total_actions'']"

text \<open>
  \<open>calculate_second_half_drop\<close>. Without any defensive action, and unless both period
  1 and period 2 are columns of the pivot, the result is \<open>pd.DataFrame()\<close>, the table
  without columns and rows. Otherwise every row of the pivot gets the two rates, their
  difference and, by the merge with the group sizes, the number of defensive actions of
  its key.
\<close>

definition calculate_second_half_drop :: "pevent list \<Rightarrow> frame" where
  "calculate_second_half_drop df =
     (let da = filter is_def_action df
      in if length da = 0 then \<lparr> columns = [], rows = [] \<rparr>
         else
           let g = period_groups da;
               period_cols = filter (\<lambda>col. col \<in> set [1, 2]) (pivot_columns g)
           in if length period_cols = 2
              then \<lparr> columns = map str_of_int (pivot_columns g) @ half_columns,
                     rows = map (\<lambda>k. \<lparr> key = k,
                                        cells = map_of
                                          ([(''first_half_rate'', pivot_cell g k 1),
                                            (''second_half_rate'', pivot_cell g k 2),
                                            (''second_half_drop'', pivot_cell g k 2 - pivot_cell g k 1),
                                            (''total_actions'',
                                               count_rows (filter (\<lambda>e. pkey_of e = Some k) da))]
                                           @ map (\<lambda>p. (str_of_int p, pivot_cell g k p))
                                                 (pivot_columns g)) \<rparr>)
                                (pivot_index g) \<rparr>
              else \<lparr> columns = [], rows = [] \<rparr>)"

text \<open>
  The fail rate of a key in a period as the specification words it: failures over attempts
  among the key's defensive actions of the period, and 0 when there are none.
\<close>

definition half_actions :: "pevent list \<Rightarrow> pkey \<Rightarrow> int \<Rightarrow> pevent list" where
  "half_actions df k p =
     filter (\<lambda>e. is_def_action e \<and> pkey_of e = Some k \<and> period_id e = p) df"



definition period_occurs :: "pevent list \<Rightarrow> int \<Rightarrow> bool" where
  "period_occurs df p = (\<exists>e \<in> set df. is_def_action e \<and> pkey_of e \<noteq> None \<and> period_id e = p)"


section \<open>Metrics engine (awards_engine.py, calculate_metrics)\<close>

text \<open>
  \<open>np.where(den > 0, num / den, 0)\<close> for one row. A comparison with NaN is False, so a
  missing denominator gives 0; the quotient is only read where the denominator is
  positive, and dividing a column by a column with zeros raises nothing in pandas.
\<close>

definition np_where_ratio :: "rat option \<Rightarrow> rat option \<Rightarrow> rat option" where
  "np_where_ratio num den =
     (case den of
        None \<Rightarrow> Some 0
      | Some d \<Rightarrow> if d > 0 then map_option (\<lambda>n. n / d) num else Some 0)"

text \<open>\<open>stats[name] = values\<close>: a new last column, or new values for the column.\<close>

definition assign :: "string \<Rightarrow> (row \<Rightarrow> rat option) \<Rightarrow> frame \<Rightarrow> frame" where
  "assign name f fr =
     \<lparr> columns = (if name \<in> set (columns fr) then columns fr else columns fr @ [name]),
       rows = map (\<lambda>r. r\<lparr> cells := (cells r)(name := f r) \<rparr>) (rows fr) \<rparr>"

text \<open>
  The six blocks at the head of \<open>calculate_metrics\<close> have one shape: when the two
  count columns are in the table, the metric is assigned. They are listed as
  (metric, numerator, denominator).
\<close>

definition ratio_metrics :: "(string \<times> string \<times> string) list" where
  "ratio_metrics =
     [(''tackle_fail_rate'', ''tackle_fail'', ''tackle_attempt''),
      (''card_per_def'', ''card_count'', ''def_actions''),
      (''danger_foul_ratio'', ''danger_foul_count'', ''foul_count''),
      (''block_fail_rate'', ''block_fail'', ''block_attempt''),
      (''interception_fail_rate'', ''interception_fail'', ''interception_attempt''),
      (''duel_fail_rate'', ''duel_fail'', ''duel_attempt'')]"

definition ratio_block :: "string \<times> string \<times> string \<Rightarrow> frame \<Rightarrow> frame" where
  "ratio_block m stats =
     (case m of (metric, num, den) \<Rightarrow>
        if den \<in> set (columns stats) \<and> num \<in> set (columns stats)
        then assign metric (\<lambda>r. np_where_ratio (cells r num) (cells r den)) stats
        else stats)"

text \<open>
  \<open>a.merge(b[["player_id"] + cols], on="player_id", how="left")\<close>, for columns
  \<open>cols\<close> that \<open>a\<close> does not have: the rows of \<open>a\<close> in their order, each once
  per row of \<open>b\<close> with the same player_id, and once with missing cells when there is
  none.
\<close>

definition merge_left_player_id :: "frame \<Rightarrow> frame \<Rightarrow> string list \<Rightarrow> frame" where
  "merge_left_player_id a b cols =
     \<lparr> columns = columns a @ cols,
       rows = concat (map (\<lambda>l. case filter (\<lambda>r. fst (key r) = fst (key l)) (rows b) of
                                  [] \<Rightarrow> [l\<lparr> cells := (\<lambda>c. if c \<in> set cols then None else cells l c) \<rparr>]
                                | m # ms \<Rightarrow>
                                    map (\<lambda>r. l\<lparr> cells := (\<lambda>c. if c \<in> set cols then cells r c
                                                                else cells l c) \<rparr>)
                                        (m # ms))
                          (rows a)) \<rparr>"

text \<open>
  \<open>calculate_metrics(player_stats, clearance_panic)\<close>; the three further tables are
  optional arguments, None by default, and their blocks are skipped then. Selecting the
  two columns of a clearance table that lacks one raises KeyError. When \<open>stats\<close>
  already has one of the two columns, the merge renames both copies with suffixes, and
  reading the column by its name raises KeyError.
\<close>

definition calculate_metrics :: "frame \<Rightarrow> frame option \<Rightarrow> error + frame" where
  "calculate_metrics player_stats clearance_panic =
     (let stats = foldl (\<lambda>s m. ratio_block m s) player_stats ratio_metrics
      in case clearance_panic of
           None \<Rightarrow> Inr stats
         | Some cp \<Rightarrow>
             if length (rows cp) > 0
             then
               if \<not> set [''clearance'', ''concede_shot10''] \<subseteq> set (columns cp) then Inl KeyError
               else if ''clearance'' \<in> set (columns stats) \<or> ''concede_shot10'' \<in> set (columns stats)
               then Inl KeyError
               else
                 let stats = merge_left_player_id stats cp [''clearance'', ''concede_shot10''];
                     stats = assign ''clearance_panic_rate''
                               (\<lambda>r. np_where_ratio (cells r ''concede_shot10'') (cells r ''clearance''))
                               stats;
                     stats = fillna0 [''clearance''] stats;
                     stats = fillna0 [''concede_shot10''] stats
                 in Inr stats
             else Inr stats)"

text \<open>
  The tables for which \<open>calculate_metrics\<close> raises no KeyError: the clearance table is
  absent or empty, or it has the two columns and \<open>player_stats\<close> has neither.
\<close>

definition panic_schema_ok :: "frame \<Rightarrow> frame option \<Rightarrow> bool" where
  "panic_schema_ok player_stats clearance_panic =
     (case clearance_panic of
        None \<Rightarrow> True
      | Some cp \<Rightarrow>
          rows cp = []
          \<or> (set [''clearance'', ''concede_shot10''] \<subseteq> set (columns cp)
              \<and> ''clearance'' \<notin> set (columns player_stats)
              \<and> ''concede_shot10'' \<notin> set (columns player_stats)))"

definition panic_given :: "frame option \<Rightarrow> bool" where
  "panic_given clearance_panic = (case clearance_panic of None \<Rightarrow> False | Some cp \<Rightarrow> rows cp \<noteq> [])"

text \<open>
  The block of \<open>aggregate_attack_stats\<close> that assigns receive_to_give_ratio has the
  same shape, on the merged and zero-filled attack table.
\<close>

definition receive_to_give :: "string \<times> string \<times> string" where
  "receive_to_give = (''receive_to_give_ratio'', ''pass_received'', ''pass_given'')"

section \<open>Ranking engine (awards_engine.py, compute_award_scores)\<close>

record award =
  ident :: string
  metric :: string
  min_attempts :: "rat option"

definition mk_award :: "string \<Rightarrow> string \<Rightarrow> rat \<Rightarrow> award" where
  "mk_award i m n = \<lparr> ident = i, metric = m, min_attempts = Some n \<rparr>"

text \<open>The configured awards (config.py): id, metric and min_attempts of each.\<close>

definition AWARDS :: "award list" where
  "AWARDS =
     [mk_award ''tackle_fail'' ''tackle_fail_rate'' 5,
      mk_award ''card_per_def'' ''card_per_def'' 10,
      mk_award ''danger_foul'' ''danger_foul_ratio'' 3,
      mk_award ''clearance_panic'' ''clearance_panic_rate'' 5,
      mk_award ''block_fail'' ''block_fail_rate'' 3,
      mk_award ''interception_fail'' ''interception_fail_rate'' 5,
      mk_award ''duel_fail'' ''duel_fail_rate'' 10,
      mk_award ''def_third_turnover'' ''def_third_turnover_rate'' 10,
      mk_award ''second_half_drop'' ''second_half_drop'' 20,
      mk_award ''cannon_shot'' ''off_target_per_game'' 10,
      mk_award ''chicken_chest'' ''penalty_box_miss_per_game'' 5,
      mk_award ''offside_line'' ''offside_per_game'' 1,
      mk_award ''selfish_player'' ''receive_to_give_ratio'' 50,
      mk_award ''cross_fail'' ''cross_fail_per_game'' 10,
      mk_award ''duel_loser_attack'' ''duel_fail_per_game_attack'' 20,
      mk_award ''aerial_fail'' ''aerial_fail_per_game'' 1]"

definition attempt_cols :: "(string \<times> string) list" where
  "attempt_cols =
     [(''tackle_fail_rate'', ''tackle_attempt''),
      (''block_fail_rate'', ''block_attempt''),
      (''interception_fail_rate'', ''interception_attempt''),
      (''duel_fail_rate'', ''duel_attempt''),
      (''clearance_panic_rate'', ''clearance''),
      (''card_per_def'', ''def_actions''),
      (''danger_foul_ratio'', ''foul_count''),
      (''def_third_turnover_rate'', ''def_third_attempts''),
      (''second_half_drop'', ''def_actions''),
      (''off_target_per_game'', ''total_shots''),
      (''penalty_box_miss_per_game'', ''penalty_box_shots''),
      (''offside_per_game'', ''offsides''),
      (''receive_to_give_ratio'', ''pass_received''),
      (''cross_fail_per_game'', ''total_crosses''),
      (''duel_fail_per_game_attack'', ''total_duels_attack''),
      (''aerial_fail_per_game'', ''aerial_fail'')]"

text \<open>
  \<open>filtered\<close>: the rows whose attempt column is at least \<open>min_attempts\<close> (a missing
  cell is not), or every row when the metric has no attempt column or the table lacks it.
\<close>

definition filtered_rows :: "frame \<Rightarrow> award \<Rightarrow> row list" where
  "filtered_rows stats a =
     (let least = (case min_attempts a of None \<Rightarrow> 0 | Some n \<Rightarrow> n)
      in case map_of attempt_cols (metric a) of
           None \<Rightarrow> rows stats
         | Some attempt_col \<Rightarrow>
             if attempt_col \<noteq> [] \<and> attempt_col \<in> set (columns stats)
             then filter (\<lambda>r. case cells r attempt_col of None \<Rightarrow> False | Some v \<Rightarrow> v \<ge> least)
                         (rows stats)
             else rows stats)"

text \<open>
  \<open>scores.rank(pct=True)\<close>: the rank of a value among the scores in ascending order,
  ties sharing the average of their positions, divided by the number of scores.
  \<open>scores.rank(ascending=False, method="min")\<close>: one more than the number of larger
  scores.
\<close>

definition rank_average :: "rat list \<Rightarrow> rat \<Rightarrow> rat" where
  "rank_average scores v =
     of_nat (length (filter (\<lambda>x. x < v) scores))
     + (of_nat (length (filter (\<lambda>x. x = v) scores)) + 1) / 2"

definition rank_pct :: "rat list \<Rightarrow> rat \<Rightarrow> rat" where
  "rank_pct scores v = rank_average scores v / of_nat (length scores)"

definition rank_min_descending :: "rat list \<Rightarrow> rat \<Rightarrow> int" where
  "rank_min_descending scores v = 1 + int (length (filter (\<lambda>x. x > v) scores))"

record award_score =
  award_id :: string
  player :: pkey
  score :: rat
  rank :: int
  percentile :: rat

text \<open>\<open>filtered[metric].fillna(0)\<close>, for one row.\<close>

definition score_of :: "award \<Rightarrow> row \<Rightarrow> rat" where
  "score_of a r = (case cells r (metric a) of None \<Rightarrow> 0 | Some v \<Rightarrow> v)"

text \<open>
  The rows one award appends to \<open>results\<close>: the body of the loop. An award whose
  metric is no column of the table is skipped, and so is one without filtered rows.
\<close>

definition award_scores :: "frame \<Rightarrow> award \<Rightarrow> award_score list" where
  "award_scores stats a =
     (if metric a \<notin> set (columns stats) then []
      else
        let filtered = filtered_rows stats a
        in if length filtered = 0 then []
           else
             let scores = map (score_of a) filtered
             in map (\<lambda>(r, s). \<lparr> award_id = ident a, player = key r, score = s,
                                  rank = rank_min_descending scores s,
                                  percentile = rank_pct scores s * 100 \<rparr>)
                    (zip filtered scores))"

definition compute_award_scores :: "frame \<Rightarrow> award list option \<Rightarrow> award_score list" where
  "compute_award_scores stats award_configs =
     concat (map (award_scores stats)
                 (case award_configs of None \<Rightarrow> AWARDS | Some configs \<Rightarrow> configs))"

text \<open>
  The percentile as the specification words it: the share of the scores that are at most
  the player's, times 100.
\<close>

definition share_at_or_below :: "rat list \<Rightarrow> rat \<Rightarrow> rat" where
  "share_at_or_below scores v =
     of_nat (length (filter (\<lambda>x. x \<le> v) scores)) / of_nat (length scores) * 100"

text \<open>
  The rule of the filter as the specification words it: a player is kept when the number in
  the attempt column is at least min_attempts, and every player is kept when the table has
  no such column.
\<close>

definition qualifies :: "frame \<Rightarrow> award \<Rightarrow> row \<Rightarrow> bool" where
  "qualifies stats a r =
     (case map_of attempt_cols (metric a) of
        None \<Rightarrow> True
      | Some col \<Rightarrow>
          if col \<in> set (columns stats)
          then (case cells r col of
                  None \<Rightarrow> False
                | Some v \<Rightarrow> v \<ge> (case min_attempts a of None \<Rightarrow> 0 | Some n \<Rightarrow> n))
          else True)"

text \<open>The pipeline from a raw log to the award rows.\<close>

definition pipeline_stats :: "event list \<Rightarrow> error + frame" where
  "pipeline_stats raw =
     (let preprocessed = preprocess_events raw
      in calculate_metrics (aggregate_player_stats preprocessed)
           (Some (calculate_clearance_panic preprocessed)))"

text \<open>
  A log in which X clears at 10 s, Y shoots at 18 s and Z tackles with success at 25 s; an
  attack table in which X received three passes and gave none; a table of three players
  with tackle fail rates 1/2, 1/2 and 1/4; and a table without the second_half_drop
  column, in which X has 25 defensive actions.
\<close>

definition metrics_log :: "event list" where
  "metrics_log =
     [ev 1 1 10 1 player_X 1 ''Clearance'' (Some ''Successful''),
      ev 1 1 18 2 player_Y 2 ''Shot'' (Some ''Off Target''),
      ev 1 1 25 3 player_Z 2 ''Tackle'' (Some ''Successful'')]"

definition pass_stats :: frame where
  "pass_stats =
     \<lparr> columns = [''pass_received'', ''pass_given''],
       rows = [\<lparr> key = player_X, cells = [''pass_received'' \<mapsto> 3, ''pass_given'' \<mapsto> 0] \<rparr>] \<rparr>"

definition no_drop_stats :: frame where
  "no_drop_stats =
     \<lparr> columns = [''def_actions''],
       rows = [\<lparr> key = player_X, cells = [''def_actions'' \<mapsto> 25] \<rparr>] \<rparr>"

definition tied_stats :: frame where
  "tied_stats =
     \<lparr> columns = [''tackle_attempt'', ''tackle_fail_rate''],
       rows = [\<lparr> key = player_X, cells = [''tackle_attempt'' \<mapsto> 6, ''tackle_fail_rate'' \<mapsto> 1 / 2] \<rparr>,
               \<lparr> key = player_Y, cells = [''tackle_attempt'' \<mapsto> 8, ''tackle_fail_rate'' \<mapsto> 1 / 2] \<rparr>,
               \<lparr> key = player_Z, cells = [''tackle_attempt'' \<mapsto> 8, ''tackle_fail_rate'' \<mapsto> 1 / 4] \<rparr>] \<rparr>"

definition show_scores :: "award_score list \<Rightarrow> (string \<times> pkey \<times> rat \<times> int \<times> rat) list" where
  "show_scores out = map (\<lambda>s. (award_id s, player s, score s, rank s, percentile s)) out"
section \<open>Preprocessor: properties\<close>

lemma sort_columns_add_flags: "sort_columns (add_flags e) = sort_columns e"
  by (simp add: sort_columns_def add_flags_def)

lemma add_flags_add_flags: "add_flags (add_flags e) = add_flags e"
  by (simp add: add_flags_def)

lemma truncate_add_flags: "event.truncate (add_flags e) = event.truncate e"
  by (simp add: add_flags_def event.truncate_def)

lemma preprocess_events_sorted:
  "sorted (map sort_columns (preprocess_events df))"
proof -
  have "map sort_columns (preprocess_events df) = map sort_columns (sort_key sort_columns df)"
    by (simp add: preprocess_events_def sort_columns_add_flags)
  then show ?thesis by simp
qed

text \<open>
  C8. Preprocessing twice gives the table that preprocessing once gives, so in particular
  the same is_success, is_fail, is_card and in_def_third in every row; and the rows of the
  output are the rows of the input (as a multiset of their source columns, hence with
  multiplicities: nothing dropped, nothing deduplicated).
\<close>

theorem preprocess_events_idempotent:
  "preprocess_events (preprocess_events df) = preprocess_events df
   \<and> map is_success (preprocess_events (preprocess_events df)) = map is_success (preprocess_events df)
   \<and> map is_fail (preprocess_events (preprocess_events df)) = map is_fail (preprocess_events df)
   \<and> map is_card (preprocess_events (preprocess_events df)) = map is_card (preprocess_events df)
   \<and> map in_def_third (preprocess_events (preprocess_events df)) = map in_def_third (preprocess_events df)
   \<and> mset (map event.truncate (preprocess_events df)) = mset (map event.truncate df)
   \<and> length (preprocess_events df) = length df"
proof -
  have srt: "sort_key sort_columns (preprocess_events df) = preprocess_events df"
    by (rule sort_key_id_if_sorted) (rule preprocess_events_sorted)
  have idem: "preprocess_events (preprocess_events df) = preprocess_events df"
  proof -
    have "preprocess_events (preprocess_events df) = map add_flags (preprocess_events df)"
      by (simp add: preprocess_events_def [of "preprocess_events df"] srt)
    also have "\<dots> = preprocess_events df"
      by (simp add: preprocess_events_def add_flags_add_flags)
    finally show ?thesis .
  qed
  have "mset (map event.truncate (preprocess_events df))
        = mset (map event.truncate (sort_key sort_columns df))"
    by (simp add: preprocess_events_def truncate_add_flags comp_def)
  also have "\<dots> = image_mset event.truncate (mset (sort_key sort_columns df))"
    by simp
  also have "\<dots> = mset (map event.truncate df)"
    by simp
  finally have rows_kept: "mset (map event.truncate (preprocess_events df)) = mset (map event.truncate df)" .
  have len: "length (preprocess_events df) = length df"
    by (simp add: preprocess_events_def)
  from idem rows_kept len show ?thesis by simp
qed

section \<open>Zone binner: properties\<close>

lemma default_bins_increase:
  "sorted_wrt (<) default_x_bins" "sorted_wrt (<) default_y_bins"
  by (simp_all add: default_x_bins_def default_y_bins_def)

lemma cut_x_default:
  "cut default_x_bins (x_labels_for default_x_bins) (Some x) =
     Inr (if x < 0 then None else if x < 105 / 4 then Some ''D''
          else if x < 105 / 2 then Some ''DM'' else if x < 315 / 4 then Some ''AM''
          else if x < 105 then Some ''A'' else None)"
  by (simp add: cut_def default_x_bins_def x_labels_for_def searchsorted_right_def)

lemma cut_y_default:
  "cut default_y_bins (y_labels_for default_y_bins) (Some y) =
     Inr (if y < 0 then None else if y < 2267 / 100 then Some ''L''
          else if y < 4533 / 100 then Some ''C''
          else if y < 68 then Some ''R'' else None)"
  by (simp add: cut_def default_y_bins_def y_labels_for_def searchsorted_right_def)

lemma cut_default_missing:
  "cut default_x_bins (x_labels_for default_x_bins) None = Inr None"
  "cut default_y_bins (y_labels_for default_y_bins) None = Inr None"
  by (simp_all add: cut_def default_x_bins_def default_y_bins_def)

text \<open>
  On the half-open rectangle the binning is total: every point gets one of the twelve
  labels, and the boundary x = 26.25 belongs to band DM.
\<close>

lemma zone_of_half_open:
  assumes "0 \<le> x" "x < 105" "0 \<le> y" "y < 68"
  shows "\<exists>z. zone_of default_x_bins default_y_bins (Some x) (Some y) = Inr z
             \<and> zone z \<in> set zone_labels"
  using assms
  by (simp add: zone_of_def cut_x_default cut_y_default astype_str_def zone_labels_def)

lemma zone_of_boundary_DM:
  assumes "0 \<le> y" "y < 68"
  shows "\<exists>z. zone_of default_x_bins default_y_bins (Some (105 / 4)) (Some y) = Inr z
             \<and> zone_x z = ''DM''"
  using assms
  by (simp add: zone_of_def cut_x_default cut_y_default astype_str_def)

text \<open>
  C2. The claim asks for one of the twelve zone labels at every point of the closed
  rectangle [0,105] x [0,68]. At x = 105 (an event on the far goal line) the binning gives
  a missing band, whose text is "nan": the zone of the event is "nan-C", which is none of
  the twelve labels.
\<close>

theorem add_zone_columns_goal_line:
  "add_zone_columns [goal_line_event] None None start_x start_y
     = Inr [(goal_line_event, \<lparr> zone_x = ''nan'', zone_y = ''C'', zone = ''nan-C'' \<rparr>)]
   \<and> ''nan-C'' \<notin> set zone_labels"
  by (simp add: add_zone_columns_def zone_of_def cut_x_default cut_y_default
      cut_default_missing astype_str_def zone_labels_def goal_line_event_def Let_def)

section \<open>Tables: merging\<close>


lemma row_eta: "\<lparr> key = key r, cells = cells r \<rparr> = (r::row)"
  by simp










section \<open>Aggregator: properties\<close>

lemma groupby_agg_rows:
  "rows (groupby_agg sub ags) =
     map (\<lambda>k. \<lparr> key = k,
                 cells = map_of (map (\<lambda>(c, f). (c, f (filter (\<lambda>e. pkey_of e = Some k) sub))) ags) \<rparr>)
         (sort (remdups (List.map_filter pkey_of sub)))"
  by (simp add: groupby_agg_def)

lemma set_map_filter_Some: "set (List.map_filter f xs) = {y. \<exists>x \<in> set xs. f x = Some y}"
  by (induction xs) (auto split: option.splits)






















section \<open>Temporal correlator: properties\<close>

lemma merged_column_names:
  "time_col_shot = ''time_seconds''" "time_col_clr = ''time_seconds''"
  "team_col = ''team_id_shot''" "team_id_clr_col = ''team_id_clr''"
  "''time_seconds'' \<in> set merged_columns" "''player_id_clr'' \<in> set merged_columns"
  by (simp_all add: time_col_shot_def time_col_clr_def team_col_def team_id_clr_col_def
      merged_columns_def event_columns_def)

lemma time_diff_zero: "time_diff m = 0"
  by (simp add: time_diff_def merged_column_names merged_num_def)

lemma shot_within_10s_teams:
  "shot_within_10s m \<longleftrightarrow>
     map_option (\<lambda>s. (of_int (team_id s) :: rat)) (shot m) \<noteq> Some (of_int (team_id (clr m)))"
  by (simp add: shot_within_10s_def time_diff_zero merged_column_names merged_num_def)

lemma group_result_rows:
  "group_result cg sg =
     map (\<lambda>r. (r, shot_within_10s r))
       (map (\<lambda>c. \<lparr> clr = c, shot = find (\<lambda>s. time_seconds c \<le> time_seconds s) (sort_key time_seconds sg) \<rparr>)
         (filter (\<lambda>c. \<exists>s \<in> set sg. time_seconds c \<le> time_seconds s) (sort_key time_seconds cg)))"
proof (cases "sg = []")
  case True
  then show ?thesis by (simp add: group_result_def)
next
  case False
  have keep: "(merged_num time_col_shot
                 \<lparr> clr = c, shot = find (\<lambda>s. time_seconds c \<le> time_seconds s) (sort_key time_seconds sg) \<rparr> \<noteq> None
               \<and> merged_num team_col
                 \<lparr> clr = c, shot = find (\<lambda>s. time_seconds c \<le> time_seconds s) (sort_key time_seconds sg) \<rparr> \<noteq> None)
             \<longleftrightarrow> (\<exists>s \<in> set sg. time_seconds c \<le> time_seconds s)" for c :: pevent
    by (auto simp add: merged_column_names merged_num_def find_None_iff)
  have filt: "filter (\<lambda>r. merged_num time_col_shot r \<noteq> None \<and> merged_num team_col r \<noteq> None)
          (merge_asof_forward (sort_key time_seconds cg) (sort_key time_seconds sg))
        = map (\<lambda>c. \<lparr> clr = c, shot = find (\<lambda>s. time_seconds c \<le> time_seconds s) (sort_key time_seconds sg) \<rparr>)
            (filter (\<lambda>c. \<exists>s \<in> set sg. time_seconds c \<le> time_seconds s) (sort_key time_seconds cg))"
    by (simp only: merge_asof_forward_def filter_map comp_def keep)
  show ?thesis
    using False unfolding group_result_def Let_def filt
    by (simp add: merged_column_names)
qed

lemma group_result_clearances:
  "mset (map (\<lambda>r. clr (fst r)) (group_result cg sg))
     = mset (filter (\<lambda>c. \<exists>s \<in> set sg. time_seconds c \<le> time_seconds s) cg)"
proof -
  have "map (\<lambda>r. clr (fst r)) (group_result cg sg)
          = filter (\<lambda>c. \<exists>s \<in> set sg. time_seconds c \<le> time_seconds s) (sort_key time_seconds cg)"
    by (simp only: group_result_rows map_map comp_def fst_conv merged.simps map_ident)
  then show ?thesis by simp
qed

lemma concat_groups_mset:
  "distinct ks \<Longrightarrow>
     mset (concat (map (\<lambda>k. filter (\<lambda>e. g e = k) xs) ks)) = filter_mset (\<lambda>e. g e \<in> set ks) (mset xs)"
proof (induction ks)
  case Nil
  then show ?case by simp
next
  case (Cons k ks)
  then have "k \<notin> set ks" and IH: "mset (concat (map (\<lambda>k. filter (\<lambda>e. g e = k) xs) ks))
      = filter_mset (\<lambda>e. g e \<in> set ks) (mset xs)" by simp_all
  have "filter_mset (\<lambda>e. g e = k) (mset xs) + filter_mset (\<lambda>e. g e \<in> set ks) (mset xs)
        = filter_mset (\<lambda>e. g e \<in> set (k # ks)) (mset xs)"
    using \<open>k \<notin> set ks\<close> by (intro multiset_eqI) auto
  with IH show ?case by simp
qed

lemma same_period_iff: "same_period gp e \<longleftrightarrow> (game_id e, period_id e) = gp"
  by (auto simp add: same_period_def)

lemma panic_results_clearances:
  "mset (map (\<lambda>r. clr (fst r)) (panic_results df))
     = mset (filter (has_later_shot df) (filter is_clearance df))"
proof -
  define clrs where "clrs = filter is_clearance df"
  define shots where "shots = filter is_shot df"
  define ks where "ks = sort (remdups (map (\<lambda>e. (game_id e, period_id e)) clrs))"
  have group: "mset (map (\<lambda>r. clr (fst r))
                  (group_result (filter (same_period gp) clrs) (filter (same_period gp) shots)))
      = mset (filter (\<lambda>e. (game_id e, period_id e) = gp) (filter (has_later_shot df) clrs))" for gp
  proof -
    have "filter (\<lambda>c. \<exists>s \<in> set (filter (same_period gp) shots). time_seconds c \<le> time_seconds s)
                 (filter (same_period gp) clrs)
             = filter (\<lambda>e. (game_id e, period_id e) = gp) (filter (has_later_shot df) clrs)"
      unfolding filter_filter
      by (rule filter_cong) (auto simp add: has_later_shot_def shots_def same_period_def)
    then show ?thesis
      by (simp only: group_result_clearances)
  qed
  have "mset (map (\<lambda>r. clr (fst r)) (panic_results df))
      = mset (concat (map (\<lambda>gp. map (\<lambda>r. clr (fst r))
                  (group_result (filter (same_period gp) clrs) (filter (same_period gp) shots))) ks))"
    by (simp add: panic_results_def Let_def clrs_def shots_def ks_def map_concat comp_def)
  also have "\<dots> = (\<Sum>gp\<leftarrow>ks. mset (map (\<lambda>r. clr (fst r))
                  (group_result (filter (same_period gp) clrs) (filter (same_period gp) shots))))"
    by (simp add: mset_concat comp_def)
  also have "\<dots> = (\<Sum>gp\<leftarrow>ks. mset (filter (\<lambda>e. (game_id e, period_id e) = gp) (filter (has_later_shot df) clrs)))"
    by (simp only: group)
  also have "\<dots> = mset (concat (map (\<lambda>gp. filter (\<lambda>e. (game_id e, period_id e) = gp)
                  (filter (has_later_shot df) clrs)) ks))"
    by (simp add: mset_concat comp_def)
  also have "\<dots> = filter_mset (\<lambda>e. (game_id e, period_id e) \<in> set ks) (mset (filter (has_later_shot df) clrs))"
    by (rule concat_groups_mset) (simp add: ks_def)
  also have "\<dots> = mset (filter (\<lambda>e. (game_id e, period_id e) \<in> set ks) (filter (has_later_shot df) clrs))"
    by (simp only: mset_filter)
  also have "filter (\<lambda>e. (game_id e, period_id e) \<in> set ks) (filter (has_later_shot df) clrs)
               = filter (has_later_shot df) clrs"
    by (rule filter_True) (auto simp add: ks_def)
  finally show ?thesis by (simp only: clrs_def)
qed

lemma panic_results_count:
  "length (filter (\<lambda>r. pkey_of (clr (fst r)) = Some k) (panic_results df))
     = length (paired_clearances df k)"
proof -
  have "length (filter (\<lambda>r. pkey_of (clr (fst r)) = Some k) (panic_results df))
      = length (filter (\<lambda>c. pkey_of c = Some k) (map (\<lambda>r. clr (fst r)) (panic_results df)))"
    by (simp add: filter_map comp_def)
  also have "\<dots> = size (filter_mset (\<lambda>c. pkey_of c = Some k) (mset (map (\<lambda>r. clr (fst r)) (panic_results df))))"
    by (simp only: mset_filter [symmetric] size_mset)
  also have "\<dots> = size (mset (filter (\<lambda>c. pkey_of c = Some k) (filter (has_later_shot df) (filter is_clearance df))))"
    by (simp only: panic_results_clearances mset_filter)
  also have "\<dots> = length (filter (\<lambda>c. pkey_of c = Some k) (filter (has_later_shot df) (filter is_clearance df)))"
    by (simp only: size_mset)
  also have "filter (\<lambda>c. pkey_of c = Some k) (filter (has_later_shot df) (filter is_clearance df))
      = paired_clearances df k"
    unfolding filter_filter paired_clearances_def by (rule filter_cong) auto
  finally show ?thesis .
qed

lemma panic_results_keys:
  "set (List.map_filter (\<lambda>r. pkey_of (clr (fst r))) (panic_results df))
     = {k. paired_clearances df k \<noteq> []}"
proof -
  have "k \<in> set (List.map_filter (\<lambda>r. pkey_of (clr (fst r))) (panic_results df))
          \<longleftrightarrow> paired_clearances df k \<noteq> []" for k
  proof -
    have "k \<in> set (List.map_filter (\<lambda>r. pkey_of (clr (fst r))) (panic_results df))
            \<longleftrightarrow> filter (\<lambda>r. pkey_of (clr (fst r)) = Some k) (panic_results df) \<noteq> []"
      by (auto simp add: set_map_filter_Some filter_empty_conv)
    also have "\<dots> \<longleftrightarrow> length (filter (\<lambda>r. pkey_of (clr (fst r)) = Some k) (panic_results df)) \<noteq> 0"
      by simp
    also have "\<dots> \<longleftrightarrow> paired_clearances df k \<noteq> []"
      by (simp only: panic_results_count) simp
    finally show ?thesis .
  qed
  then show ?thesis by blast
qed

lemma panic_results_empty:
  assumes "filter is_clearance df = [] \<or> filter is_shot df = []"
  shows "panic_results df = []"
  using assms
proof
  assume a: "filter is_clearance df = []"
  show ?thesis unfolding panic_results_def Let_def a by simp
next
  assume a: "filter is_shot df = []"
  show ?thesis unfolding panic_results_def Let_def a by (simp add: group_result_def)
qed

lemma calculate_clearance_panic_rows:
  "rows (calculate_clearance_panic df) =
     map (\<lambda>k. \<lparr> key = k,
                 cells = map_of
                   [(''clearance'',
                       count_rows (filter (\<lambda>r. pkey_of (clr (fst r)) = Some k) (panic_results df))),
                    (''concede_shot10'',
                       sum_flag snd (filter (\<lambda>r. pkey_of (clr (fst r)) = Some k) (panic_results df)))] \<rparr>)
         (sort (remdups (List.map_filter (\<lambda>r. pkey_of (clr (fst r))) (panic_results df))))"
proof (cases "filter is_clearance df = [] \<or> filter is_shot df = []")
  case True
  then have "panic_results df = []" by (rule panic_results_empty)
  with True show ?thesis by (auto simp add: calculate_clearance_panic_def Let_def)
next
  case False
  then show ?thesis
    by (cases "panic_results df = []")
       (simp_all add: calculate_clearance_panic_def Let_def merged_column_names)
qed

text \<open>
  C10. In the table of \<open>calculate_clearance_panic\<close> the 'clearance' cell of every row
  is the number of the player's clearances that have a shot at or after them in their own
  game and period; the table has one row per identity key with at least one such clearance,
  and no other row. So a clearance after the last shot of its period, or in a period
  without shots, is not counted: in the log with clearances at 10 s and 30 s and one shot
  at 18 s the count is 1, while \<open>aggregate_player_stats\<close> reports clearance_attempt 2.
\<close>

theorem calculate_clearance_panic_counts_paired_clearances:
  "map (\<lambda>r. cells r ''clearance'') (rows (calculate_clearance_panic df))
     = map (\<lambda>r. Some (of_nat (length (paired_clearances df (key r)))))
           (rows (calculate_clearance_panic df))
   \<and> distinct (map key (rows (calculate_clearance_panic df)))
   \<and> key ` set (rows (calculate_clearance_panic df)) = {k. paired_clearances df k \<noteq> []}
   \<and> show_rows [''clearance''] (calculate_clearance_panic (preprocess_events two_clearance_log))
       = [(player_X, [Some 1])]
   \<and> show_rows [''clearance_attempt''] (aggregate_player_stats (preprocess_events two_clearance_log))
       = [(player_X, [Some 2])]"
proof -
  have general: "map (\<lambda>r. cells r ''clearance'') (rows (calculate_clearance_panic df))
     = map (\<lambda>r. Some (of_nat (length (paired_clearances df (key r)))))
           (rows (calculate_clearance_panic df))
   \<and> distinct (map key (rows (calculate_clearance_panic df)))
   \<and> key ` set (rows (calculate_clearance_panic df)) = {k. paired_clearances df k \<noteq> []}"
    by (simp add: calculate_clearance_panic_rows comp_def count_rows_def panic_results_count
        panic_results_keys image_image)
  have panic: "show_rows [''clearance''] (calculate_clearance_panic (preprocess_events two_clearance_log))
       = [(player_X, [Some 1])]"
    by code_simp
  have attempts: "show_rows [''clearance_attempt''] (aggregate_player_stats (preprocess_events two_clearance_log))
       = [(player_X, [Some 2])]"
    by code_simp
  from general panic attempts show ?thesis by simp
qed

text \<open>
  C1. The merged table has a single clock column, \<open>time_seconds\<close>, holding the time of
  the clearance, so the elapsed time the function computes is 0 in every row
  (\<open>time_diff_zero\<close>) and the flag is set exactly when the teams differ
  (\<open>shot_within_10s_teams\<close>). An opposing shot eleven seconds after the clearance is
  counted: for the log with a clearance at 10 s and an opposing shot at 21 s the table
  reports one clearance and one conceded shot.
\<close>

theorem calculate_clearance_panic_counts_late_shot:
  "time_diff m = 0
   \<and> show_rows panic_columns (calculate_clearance_panic (preprocess_events late_shot_log))
       = [(player_X, [Some 1, Some 1])]"
proof -
  have "show_rows panic_columns (calculate_clearance_panic (preprocess_events late_shot_log))
       = [(player_X, [Some 1, Some 1])]"
    by code_simp
  then show ?thesis by (simp add: time_diff_zero)
qed
section \<open>Second-half drop: properties\<close>

lemma period_key_of_Some:
  "period_key_of e = Some (k, p) \<longleftrightarrow> pkey_of e = Some k \<and> period_id e = p"
  by (cases "pkey_of e") (auto simp add: period_key_of_def)


lemma period_keys:
  "(k, p) \<in> set (List.map_filter period_key_of (filter is_def_action df))
     \<longleftrightarrow> half_actions df k p \<noteq> []"
  by (auto simp add: set_map_filter_Some period_key_of_Some half_actions_def filter_empty_conv)



lemma period_groups_keys:
  "map pkey_period (period_groups da) = sort (remdups (List.map_filter period_key_of da))"
  by (simp add: period_groups_def comp_def Let_def)

lemma set_period_groups_keys:
  "pkey_period ` set (period_groups (filter is_def_action df))
     = {(k, p). half_actions df k p \<noteq> []}"
proof -
  have "pkey_period ` set (period_groups (filter is_def_action df))
          = set (map pkey_period (period_groups (filter is_def_action df)))" by simp
  also have "\<dots> = set (List.map_filter period_key_of (filter is_def_action df))"
    by (simp only: period_groups_keys set_sort set_remdups)
  also have "\<dots> = {(k, p). half_actions df k p \<noteq> []}"
    using period_keys [of _ _ df] by auto
  finally show ?thesis .
qed

lemma half_actions_nonempty:
  "half_actions df k p \<noteq> [] \<longleftrightarrow> (\<exists>e \<in> set df. is_def_action e \<and> pkey_of e = Some k \<and> period_id e = p)"
  by (auto simp add: half_actions_def filter_empty_conv)

lemma set_pivot_columns:
  "set (pivot_columns (period_groups (filter is_def_action df))) = {p. period_occurs df p}"
proof -
  have "set (pivot_columns (period_groups (filter is_def_action df)))
          = snd ` pkey_period ` set (period_groups (filter is_def_action df))"
    by (simp add: pivot_columns_def image_image)
  also have "\<dots> = {p. period_occurs df p}"
    unfolding set_period_groups_keys
    by (force simp add: half_actions_nonempty period_occurs_def image_iff)
  finally show ?thesis .
qed


lemma period_cols_two:
  "length (filter (\<lambda>col. col \<in> set [1, 2]) (pivot_columns (period_groups (filter is_def_action df)))) = 2
     \<longleftrightarrow> period_occurs df 1 \<and> period_occurs df 2"
proof -
  define ps where "ps = pivot_columns (period_groups (filter is_def_action df))"
  have d: "distinct (filter (\<lambda>col. col \<in> set [1, 2]) ps)"
    by (simp add: ps_def pivot_columns_def)
  have s: "set (filter (\<lambda>col. col \<in> set [1, 2]) ps) = {p. period_occurs df p} \<inter> {1, 2}"
    using set_pivot_columns [of df] by (auto simp add: ps_def)
  have "length (filter (\<lambda>col. col \<in> set [1, 2]) ps) = card ({p. period_occurs df p} \<inter> {1, 2})"
    using distinct_card [OF d] s by simp
  moreover have "card ({p. period_occurs df p} \<inter> {1, 2::int}) = 2
                   \<longleftrightarrow> period_occurs df 1 \<and> period_occurs df 2"
  proof -
    have "{p. period_occurs df p} \<inter> {1, 2::int}
            = (if period_occurs df 1 then {1} else {}) \<union> (if period_occurs df 2 then {2} else {})"
      by auto
    then show ?thesis by (auto split: if_splits)
  qed
  ultimately show ?thesis by (simp add: ps_def)
qed

lemma calculate_second_half_drop_empty:
  assumes "\<not> (period_occurs df 1 \<and> period_occurs df 2)"
  shows "calculate_second_half_drop df = \<lparr> columns = [], rows = [] \<rparr>"
proof -
  from assms have "length (filter (\<lambda>col. col \<in> set [1, 2])
      (pivot_columns (period_groups (filter is_def_action df)))) \<noteq> 2"
    by (simp only: period_cols_two) simp
  then show ?thesis
    by (simp add: calculate_second_half_drop_def Let_def)
qed





end
